theory Spec2Isabelle
  imports Complex_Main
begin

section \<open>The network that \<open>run_rankine\<close> builds (src/app.py, lines 44-82)\<close>

text \<open>
  The Python objects are modelled as records. A component or a connection is referred to
  by its label, as the Python code refers to it by its object; the \<open>network\<close> record is
  also the store that holds the objects, so that \<open>set_attr\<close> on an object is an update of
  the store. Python floats are modelled as reals.
\<close>

datatype comp_kind =
  CycleCloser | SimpleHeatExchanger | Condenser | Turbine | Pump | Source | Sink

record component =
  kind :: comp_kind
  label :: string
  params :: "string \<rightharpoonup> real"

record connection =
  source :: string
  source_id :: string
  target :: string
  target_id :: string
  conn_label :: string
  specs :: "string \<rightharpoonup> real"
  fluid :: "string \<rightharpoonup> real"

record network =
  fluids :: "string list"
  T_unit :: string
  p_unit :: string
  h_unit :: string
  comps :: "component list"
  conns :: "connection list"

definition Network :: "string list \<Rightarrow> string \<Rightarrow> string \<Rightarrow> string \<Rightarrow> network" where
  "Network fl tu pu hu =
     \<lparr>fluids = fl, T_unit = tu, p_unit = pu, h_unit = hu, comps = [], conns = []\<rparr>"

text \<open>\<open>CycleCloser('cycle closer')\<close> and its siblings: a component with no parameter set.\<close>

definition new_component :: "comp_kind \<Rightarrow> string \<Rightarrow> network \<Rightarrow> network" where
  "new_component k l nw =
     nw\<lparr>comps := comps nw @ [\<lparr>kind = k, label = l, params = Map.empty\<rparr>]\<rparr>"

text \<open>\<open>Connection(src, 'out1', tgt, 'in1', label='1')\<close>: nothing specified yet.\<close>

definition Connection :: "string \<Rightarrow> string \<Rightarrow> string \<Rightarrow> string \<Rightarrow> string \<Rightarrow> connection" where
  "Connection s sid t tid l =
     \<lparr>source = s, source_id = sid, target = t, target_id = tid, conn_label = l,
      specs = Map.empty, fluid = Map.empty\<rparr>"

definition add_conns :: "connection list \<Rightarrow> network \<Rightarrow> network" where
  "add_conns cs nw = nw\<lparr>conns := conns nw @ cs\<rparr>"

text \<open>\<open>comp.set_attr(k1=v1, ...)\<close> on the component labelled \<open>l\<close>.\<close>

definition comp_set_attr :: "string \<Rightarrow> (string \<times> real) list \<Rightarrow> network \<Rightarrow> network" where
  "comp_set_attr l kvs nw =
     nw\<lparr>comps := map (\<lambda>c. if label c = l then c\<lparr>params := params c ++ map_of kvs\<rparr> else c)
                      (comps nw)\<rparr>"

text \<open>\<open>conn.set_attr(k1=v1, ..., fluid={...})\<close> on the connection labelled \<open>l\<close>.\<close>

definition conn_set_attr ::
  "string \<Rightarrow> (string \<times> real) list \<Rightarrow> (string \<times> real) list \<Rightarrow> network \<Rightarrow> network" where
  "conn_set_attr l kvs fl nw =
     nw\<lparr>conns := map (\<lambda>c. if conn_label c = l
                            then c\<lparr>specs := specs c ++ map_of kvs, fluid := fluid c ++ map_of fl\<rparr>
                            else c)
                      (conns nw)\<rparr>"

text \<open>Lines 45-78 of \<open>run_rankine\<close>: everything up to the call of \<open>nw.solve\<close>.\<close>

definition network_setup ::
  "real \<Rightarrow> real \<Rightarrow> real \<Rightarrow> real \<Rightarrow> real \<Rightarrow> real \<Rightarrow> real \<Rightarrow> real \<Rightarrow> real \<Rightarrow> network" where
  "network_setup T_steam p_steam m_steam p_cond T_cw_in T_cw_out p_cw eta_turbine eta_pump =
     (let nw = Network [''water''] ''C'' ''bar'' ''kJ / kg'';
          nw = new_component CycleCloser ''cycle closer'' nw;
          nw = new_component SimpleHeatExchanger ''steam generator'' nw;
          nw = new_component Condenser ''main condenser'' nw;
          nw = new_component Turbine ''steam turbine'' nw;
          nw = new_component Pump ''feed pump'' nw;
          nw = new_component Source ''cooling water source'' nw;
          nw = new_component Sink ''cooling water sink'' nw;
          c1 = Connection ''cycle closer'' ''out1'' ''steam turbine'' ''in1'' ''1'';
          c2 = Connection ''steam turbine'' ''out1'' ''main condenser'' ''in1'' ''2'';
          c3 = Connection ''main condenser'' ''out1'' ''feed pump'' ''in1'' ''3'';
          c4 = Connection ''feed pump'' ''out1'' ''steam generator'' ''in1'' ''4'';
          c0 = Connection ''steam generator'' ''out1'' ''cycle closer'' ''in1'' ''0'';
          c11 = Connection ''cooling water source'' ''out1'' ''main condenser'' ''in2'' ''11'';
          c12 = Connection ''main condenser'' ''out2'' ''cooling water sink'' ''in1'' ''12'';
          nw = add_conns [c1, c2, c3, c4, c0, c11, c12] nw;
          nw = comp_set_attr ''main condenser'' [(''pr1'', 1), (''pr2'', 0.98)] nw;
          nw = comp_set_attr ''steam generator'' [(''pr'', 0.9)] nw;
          nw = comp_set_attr ''steam turbine'' [(''eta_s'', eta_turbine)] nw;
          nw = comp_set_attr ''feed pump'' [(''eta_s'', eta_pump)] nw;
          nw = conn_set_attr ''1'' [(''T'', T_steam), (''p'', p_steam), (''m'', m_steam)]
                 [(''water'', 1)] nw;
          nw = conn_set_attr ''2'' [(''p'', p_cond)] [] nw;
          nw = conn_set_attr ''11'' [(''T'', T_cw_in), (''p'', p_cw)] [(''water'', 1)] nw;
          nw = conn_set_attr ''12'' [(''T'', T_cw_out)] [] nw
      in nw)"

text \<open>Looking an object up by its label.\<close>

definition get_comp :: "network \<Rightarrow> string \<Rightarrow> component option" where
  "get_comp nw l = find (\<lambda>c. label c = l) (comps nw)"

definition get_conn :: "network \<Rightarrow> string \<Rightarrow> connection option" where
  "get_conn nw l = find (\<lambda>c. conn_label c = l) (conns nw)"

definition comp_attr :: "network \<Rightarrow> string \<Rightarrow> string \<Rightarrow> real option" where
  "comp_attr nw l k = (case get_comp nw l of None \<Rightarrow> None | Some c \<Rightarrow> params c k)"

definition conn_attr :: "network \<Rightarrow> string \<Rightarrow> string \<Rightarrow> real option" where
  "conn_attr nw l k = (case get_conn nw l of None \<Rightarrow> None | Some c \<Rightarrow> specs c k)"

text \<open>
  The specification ledger: every value fixed by \<open>set_attr\<close>, as (owner, name, value),
  in the order of the objects in the store. The names looked for are the ones the
  source uses.
\<close>

definition attr_names :: "string list" where
  "attr_names = [''T'', ''p'', ''m'', ''h'', ''pr'', ''pr1'', ''pr2'', ''eta_s'']"

definition entries :: "string \<Rightarrow> (string \<rightharpoonup> real) \<Rightarrow> (string \<times> string \<times> real) list" where
  "entries owner f =
     concat (map (\<lambda>k. case f k of None \<Rightarrow> [] | Some v \<Rightarrow> [(owner, k, v)]) attr_names)"

definition ledger :: "network \<Rightarrow> (string \<times> string \<times> real) list" where
  "ledger nw =
     concat (map (\<lambda>c. entries (label c) (params c)) (comps nw)) @
     concat (map (\<lambda>c. entries (conn_label c) (specs c)) (conns nw))"

section \<open>The call of the solver and the script around it (src/app.py, lines 81-102)\<close>

text \<open>
  An exception is a value. \<open>LibraryError\<close> stands for any exception (a subclass of
  \<open>Exception\<close>) that the library raises while the network is solved, with its message.
\<close>

datatype exn = LibraryError string | TypeError | ZeroDivisionError | IndexError

text \<open>
  Modelled from the spec: the terminal state of a solve (sections 4.5 and 6 of the
  specification). The solver itself is the library behind \<open>nw.solve\<close> and is not part of
  the repository's sources; the script never reads this field.
\<close>

datatype solver_status =
  Converged | Diverged | DegreesOfFreedomError | OutOfRangeError | MaxIterationsExceeded

text \<open>
  What the objects hold when \<open>nw.solve\<close> has returned: \<open>comp.P.val\<close>, \<open>comp.Q.val\<close>,
  \<open>conn.m.val\<close> and so on, by the label of the object. A \<open>val\<close> may be \<open>None\<close>, as the
  source itself provides for (lines 102, 263-266, 276 and 281).
\<close>

record results =
  status :: solver_status
  comp_P :: "string \<Rightarrow> real option"
  comp_Q :: "string \<Rightarrow> real option"
  conn_m :: "string \<Rightarrow> real option"
  conn_p :: "string \<Rightarrow> real option"
  conn_T :: "string \<Rightarrow> real option"
  conn_h :: "string \<Rightarrow> real option"

text \<open>
  \<open>run_rankine\<close>: the library's \<open>solve\<close> is a parameter. An exception of \<open>solve\<close>
  leaves \<open>run_rankine\<close>; otherwise the objects are returned in the order of line 82.
\<close>

definition run_rankine ::
  "(network \<Rightarrow> string \<Rightarrow> exn + results) \<Rightarrow>
   real \<Rightarrow> real \<Rightarrow> real \<Rightarrow> real \<Rightarrow> real \<Rightarrow> real \<Rightarrow> real \<Rightarrow> real \<Rightarrow> real \<Rightarrow>
   exn + (results \<times> string list \<times> string list)" where
  "run_rankine solve T_steam p_steam m_steam p_cond T_cw_in T_cw_out p_cw eta_turbine eta_pump =
     (case solve (network_setup T_steam p_steam m_steam p_cond T_cw_in T_cw_out p_cw
                    eta_turbine eta_pump) ''design'' of
        Inl e \<Rightarrow> Inl e
      | Inr r \<Rightarrow>
          Inr (r, [''0'', ''1'', ''2'', ''3'', ''4'', ''11'', ''12''],
               [''steam generator'', ''steam turbine'', ''feed pump'', ''main condenser'']))"

text \<open>Sequencing of statements that may raise.\<close>

definition bind_exn :: "exn + 'a \<Rightarrow> ('a \<Rightarrow> exn + 'b) \<Rightarrow> exn + 'b" where
  "bind_exn x f = (case x of Inl e \<Rightarrow> Inl e | Inr v \<Rightarrow> f v)"

text \<open>\<open>xs[i]\<close> for a literal index \<open>i \<ge> 0\<close>.\<close>

definition index :: "'a list \<Rightarrow> nat \<Rightarrow> exn + 'a" where
  "index xs i = (if i < length xs then Inr (xs ! i) else Inl IndexError)"

text \<open>\<open>a / b\<close> on Python floats.\<close>

definition py_div :: "real \<Rightarrow> real \<Rightarrow> exn + real" where
  "py_div a b = (if b = 0 then Inl ZeroDivisionError else Inr (a / b))"

text \<open>\<open>x.val / b\<close> and \<open>a / x.val\<close>, where \<open>x.val\<close> may be \<open>None\<close>.\<close>

definition val_div :: "real option \<Rightarrow> real \<Rightarrow> exn + real" where
  "val_div x b = (case x of None \<Rightarrow> Inl TypeError | Some a \<Rightarrow> py_div a b)"

definition div_val :: "real \<Rightarrow> real option \<Rightarrow> exn + real" where
  "div_val a x = (case x of None \<Rightarrow> Inl TypeError | Some b \<Rightarrow> py_div a b)"

record kpis =
  boiler_heat_duty :: real
  turbine_power :: real
  pump_power :: real
  net_power_output :: real
  thermal_efficiency :: real
  coal_flow :: real
  cw_flow :: real

text \<open>Lines 96-102, statement by statement.\<close>

definition compute_kpis ::
  "results \<Rightarrow> string list \<Rightarrow> string list \<Rightarrow> real \<Rightarrow> real \<Rightarrow> exn + kpis" where
  "compute_kpis r conns_l comps_l coal_cv boiler_eff =
     bind_exn (index comps_l 0) (\<lambda>c0.
     bind_exn (val_div (comp_Q r c0) 1000) (\<lambda>bhd.
     bind_exn (index comps_l 1) (\<lambda>c1.
     bind_exn (val_div (comp_P r c1) 1000) (\<lambda>tp.
     bind_exn (index comps_l 2) (\<lambda>c2.
     bind_exn (val_div (comp_P r c2) 1000) (\<lambda>pp.
     bind_exn (div_val ((\<bar>tp\<bar> - pp) * 1000) (comp_Q r c0)) (\<lambda>q.
     bind_exn (py_div bhd (coal_cv * boiler_eff)) (\<lambda>cf.
     bind_exn (index conns_l 5) (\<lambda>c5.
       Inr \<lparr>boiler_heat_duty = bhd, turbine_power = \<bar>tp\<bar>, pump_power = pp,
            net_power_output = \<bar>tp\<bar> - pp, thermal_efficiency = q * 100, coal_flow = cf,
            cw_flow = (case conn_m r c5 of Some v \<Rightarrow> v | None \<Rightarrow> 0)\<rparr>)))))))))"

section \<open>The sidebar (src/app.py, lines 20-41)\<close>

text \<open>
  The values of the widgets, named as the script's variables; \<open>boiler_eff_slider\<close> is the
  integer slider of line 41 before its division by 100.
\<close>

record ui =
  T_steam :: real
  p_steam :: real
  m_steam :: real
  p_cond :: real
  T_cw_in :: real
  T_cw_out :: real
  p_cw :: real
  eta_turbine :: real
  eta_pump :: real
  coal_cv :: real
  boiler_eff_slider :: int

definition boiler_eff :: "ui \<Rightarrow> real" where
  "boiler_eff u = real_of_int (boiler_eff_slider u) / 100"

text \<open>
  \<open>st.slider(label, min_value, max_value, value)\<close> is a function of the widget library,
  not of the repository. Its contract as modelled here: the slider returns a value
  between its bounds, and its bounds are first made to contain the default \<open>value\<close>
  (the library computes \<open>min_value = min(min_value, max_value)\<close>,
  \<open>max_value = max(min_value, max_value)\<close>, then \<open>min_value = min(value, min_value)\<close>
  and \<open>max_value = max(value, max_value)\<close>). \<open>slider_returns lo hi d v\<close> says that \<open>v\<close> is
  a value the slider can return. The step grid is left out.
\<close>

definition slider_returns :: "'a::linorder \<Rightarrow> 'a \<Rightarrow> 'a \<Rightarrow> 'a \<Rightarrow> bool" where
  "slider_returns min_value max_value dflt v =
     (let lo = min min_value max_value;
          hi = max lo max_value;
          lo = min dflt lo;
          hi = max dflt hi
      in lo \<le> v \<and> v \<le> hi)"

text \<open>\<open>st.number_input(label, min_value, max_value, value)\<close>: a value between the bounds.\<close>

definition number_input_returns :: "real \<Rightarrow> real \<Rightarrow> real \<Rightarrow> bool" where
  "number_input_returns min_value max_value v = (min_value \<le> v \<and> v \<le> max_value)"

text \<open>The eleven widgets of lines 20-41, with their bounds and defaults.\<close>

definition widgets :: "ui \<Rightarrow> bool" where
  "widgets u =
     (slider_returns 400 650 603 (T_steam u) \<and>
      slider_returns 50 300 278 (p_steam u) \<and>
      slider_returns 400 800 532 (m_steam u) \<and>
      slider_returns 0.01 2 0.1 (p_cond u) \<and>
      slider_returns 5 40 20 (T_cw_in u) \<and>
      slider_returns (T_cw_in u + 1) 60 30 (T_cw_out u) \<and>
      slider_returns 0 10 1.2 (p_cw u) \<and>
      slider_returns 0.7 1 0.9 (eta_turbine u) \<and>
      slider_returns 0.5 1 0.75 (eta_pump u) \<and>
      number_input_returns 1000 40000 (coal_cv u) \<and>
      slider_returns 50 100 85 (boiler_eff_slider u))"

text \<open>
  The script from line 85 to line 102. \<open>Stopped e\<close>: the exception \<open>e\<close> was caught, the
  failure reported by \<open>st.error\<close> and the script ended by \<open>st.stop()\<close>. \<open>Uncaught e\<close>:
  \<open>e\<close> was raised outside the \<open>try\<close> block. \<open>Rendered k\<close>: the indicators were computed
  and go on to be displayed.
\<close>

datatype outcome = Stopped exn | Uncaught exn | Rendered kpis

definition app :: "(network \<Rightarrow> string \<Rightarrow> exn + results) \<Rightarrow> ui \<Rightarrow> outcome" where
  "app solve u =
     (case run_rankine solve (T_steam u) (p_steam u) (m_steam u) (p_cond u) (T_cw_in u)
             (T_cw_out u) (p_cw u) (eta_turbine u) (eta_pump u) of
        Inl e \<Rightarrow> Stopped e
      | Inr (r, conns_l, comps_l) \<Rightarrow>
          (case compute_kpis r conns_l comps_l (coal_cv u) (boiler_eff u) of
             Inl e \<Rightarrow> Uncaught e
           | Inr k \<Rightarrow> Rendered k))"

text \<open>The sidebar as it is when the page is first loaded: every widget at its default.\<close>

definition default_ui :: ui where
  "default_ui =
     \<lparr>T_steam = 603, p_steam = 278, m_steam = 532, p_cond = 0.1, T_cw_in = 20,
      T_cw_out = 30, p_cw = 1.2, eta_turbine = 0.9, eta_pump = 0.75, coal_cv = 24000,
      boiler_eff_slider = 85\<rparr>"

section \<open>The energy flows of the diagram (src/app.py, lines 157-161)\<close>

record flows =
  boiler_heat_mw :: real
  turbine_power_mw :: real
  pump_power_mw :: real
  condenser_heat_mw :: real
  net_power_mw :: real

text \<open>
  Lines 157-161, statement by statement: the values of the four components returned by
  \<open>run_rankine\<close>, divided by \<open>1e6\<close>, with \<open>abs\<close> around the turbine's and the condenser's.
\<close>

definition energy_flows :: "results \<Rightarrow> string list \<Rightarrow> exn + flows" where
  "energy_flows r comps_l =
     bind_exn (index comps_l 0) (\<lambda>c0.
     bind_exn (val_div (comp_Q r c0) 1000000) (\<lambda>bh.
     bind_exn (index comps_l 1) (\<lambda>c1.
     bind_exn (val_div (comp_P r c1) 1000000) (\<lambda>tp.
     bind_exn (index comps_l 2) (\<lambda>c2.
     bind_exn (val_div (comp_P r c2) 1000000) (\<lambda>pp.
     bind_exn (index comps_l 3) (\<lambda>c3.
     bind_exn (val_div (comp_Q r c3) 1000000) (\<lambda>ch.
       Inr \<lparr>boiler_heat_mw = bh, turbine_power_mw = \<bar>tp\<bar>, pump_power_mw = pp,
            condenser_heat_mw = \<bar>ch\<bar>, net_power_mw = \<bar>tp\<bar> - pp\<rparr>))))))))"

section \<open>The component models behind \<open>nw.solve\<close> (specification, sections 3, 4.1, 4.2, 4.5)\<close>

text \<open>
  Modelled from the spec: the state of a stream (section 3, Fluid State). The solver that
  owns these values is the library's and is not in the repository's sources.
\<close>

record fluid_state =
  m_val :: real
  p_val :: real
  T_val :: real
  h_val :: real

text \<open>
  Modelled from the spec: the fluid property provider (section 4.1), which the spec leaves
  to the implementer (section 9). It is a parameter of everything below: temperature from
  pressure and enthalpy, entropy from pressure and enthalpy, enthalpy from pressure and
  entropy.
\<close>

record props =
  T_ph :: "real \<Rightarrow> real \<Rightarrow> real"
  s_ph :: "real \<Rightarrow> real \<Rightarrow> real"
  h_ps :: "real \<Rightarrow> real \<Rightarrow> real"

text \<open>
  The stream attached to a port of a component, found through the connections that
  \<open>run_rankine\<close> registered; \<open>None\<close> when the port is not attached.
\<close>

definition in_state ::
  "network \<Rightarrow> (string \<Rightarrow> fluid_state) \<Rightarrow> component \<Rightarrow> string \<Rightarrow> fluid_state option" where
  "in_state nw st c port =
     map_option (\<lambda>cn. st (conn_label cn))
       (find (\<lambda>cn. target cn = label c \<and> target_id cn = port) (conns nw))"

definition out_state ::
  "network \<Rightarrow> (string \<Rightarrow> fluid_state) \<Rightarrow> component \<Rightarrow> string \<Rightarrow> fluid_state option" where
  "out_state nw st c port =
     map_option (\<lambda>cn. st (conn_label cn))
       (find (\<lambda>cn. source cn = label c \<and> source_id cn = port) (conns nw))"

text \<open>A residual that exists only when the user has fixed the parameter \<open>k\<close>.\<close>

definition fixed :: "component \<Rightarrow> string \<Rightarrow> (real \<Rightarrow> real list) \<Rightarrow> real list" where
  "fixed c k f = (case params c k of None \<Rightarrow> [] | Some v \<Rightarrow> f v)"

text \<open>
  Modelled from the spec: the residual equations of each component type (section 4.2),
  each written as the difference of the two sides of the spec's equation. The library's
  component classes are not in the repository's sources.

  Every component that a stream passes through conserves its mass flow: the spec's
  derived results use one mass flow per stream (\<open>Q = m * (h_out - h_in)\<close>), and its
  degrees-of-freedom balance (sections 3 and 4.4) counts on these equations. The
  CycleCloser is the exception: its equations are the equality of pressure and of
  enthalpy, and its mass imbalance is the check that the spec has it report, which the
  other components' mass balances drive to zero around the loop. A pump whose efficiency
  is fixed at 0 has no equation (the spec's formula divides by it): no residual vector.

  For the network of \<open>run_rankine\<close> this gives 27 equations (7 equations of state, 7 user
  specifications, 13 of the components) for 28 unknowns: the list of section 4.2 has no
  equation that fixes the condensate's enthalpy, and none is added here, so the theorems
  below hold whatever that enthalpy is.
\<close>

definition component_residuals ::
  "props \<Rightarrow> network \<Rightarrow> (string \<Rightarrow> fluid_state) \<Rightarrow> component \<Rightarrow> real list option" where
  "component_residuals pr nw st c =
     (case kind c of
        CycleCloser \<Rightarrow>
          (case (in_state nw st c ''in1'', out_state nw st c ''out1'') of
             (Some i, Some out) \<Rightarrow> Some [p_val out - p_val i, h_val out - h_val i]
           | _ \<Rightarrow> None)
      | SimpleHeatExchanger \<Rightarrow>
          (case (in_state nw st c ''in1'', out_state nw st c ''out1'') of
             (Some i, Some out) \<Rightarrow>
               Some (fixed c ''pr'' (\<lambda>v. [p_val out - p_val i * v]) @
                     [m_val out - m_val i])
           | _ \<Rightarrow> None)
      | Turbine \<Rightarrow>
          (case (in_state nw st c ''in1'', out_state nw st c ''out1'') of
             (Some i, Some out) \<Rightarrow>
               Some (fixed c ''eta_s'' (\<lambda>eta.
                       [h_val out -
                        (h_val i -
                         eta * (h_val i - h_ps pr (p_val out) (s_ph pr (p_val i) (h_val i))))]) @
                     [m_val out - m_val i])
           | _ \<Rightarrow> None)
      | Pump \<Rightarrow>
          (case (in_state nw st c ''in1'', out_state nw st c ''out1'') of
             (Some i, Some out) \<Rightarrow>
               (if params c ''eta_s'' = Some 0 then None
                else
                  Some (fixed c ''eta_s'' (\<lambda>eta.
                          [h_val out -
                           (h_val i +
                            (h_ps pr (p_val out) (s_ph pr (p_val i) (h_val i)) - h_val i) / eta)]) @
                        [m_val out - m_val i]))
           | _ \<Rightarrow> None)
      | Condenser \<Rightarrow>
          (case (in_state nw st c ''in1'', out_state nw st c ''out1'',
                 in_state nw st c ''in2'', out_state nw st c ''out2'') of
             (Some i1, Some o1, Some i2, Some o2) \<Rightarrow>
               Some (fixed c ''pr1'' (\<lambda>v. [p_val o1 - p_val i1 * v]) @
                     fixed c ''pr2'' (\<lambda>v. [p_val o2 - p_val i2 * v]) @
                     [m_val i1 * (h_val i1 - h_val o1) - m_val i2 * (h_val o2 - h_val i2),
                      m_val o1 - m_val i1, m_val o2 - m_val i2])
           | _ \<Rightarrow> None)
      | Source \<Rightarrow> (case out_state nw st c ''out1'' of Some _ \<Rightarrow> Some [] | None \<Rightarrow> None)
      | Sink \<Rightarrow> (case in_state nw st c ''in1'' of Some _ \<Rightarrow> Some [] | None \<Rightarrow> None))"

text \<open>
  Modelled from the spec: the residuals of a connection: its state satisfies the equation
  of state (section 3), and each variable the user fixed has the fixed value.
\<close>

definition spec_residual :: "connection \<Rightarrow> string \<Rightarrow> real \<Rightarrow> real list" where
  "spec_residual c k x = (case specs c k of None \<Rightarrow> [] | Some v \<Rightarrow> [x - v])"

definition connection_residuals ::
  "props \<Rightarrow> (string \<Rightarrow> fluid_state) \<Rightarrow> connection \<Rightarrow> real list" where
  "connection_residuals pr st c =
     (let s = st (conn_label c)
      in [T_val s - T_ph pr (p_val s) (h_val s)] @
         spec_residual c ''m'' (m_val s) @ spec_residual c ''p'' (p_val s) @
         spec_residual c ''T'' (T_val s) @ spec_residual c ''h'' (h_val s))"

text \<open>
  Modelled from the spec: the assembled residual vector (section 4.4) and the convergence
  criterion of the solver (section 4.5): the largest absolute residual is below the
  tolerance.
\<close>

definition residuals ::
  "props \<Rightarrow> network \<Rightarrow> (string \<Rightarrow> fluid_state) \<Rightarrow> real list option" where
  "residuals pr nw st =
     (case those (map (component_residuals pr nw st) (comps nw)) of
        None \<Rightarrow> None
      | Some rss \<Rightarrow> Some (concat rss @ concat (map (connection_residuals pr st) (conns nw))))"

definition converged :: "props \<Rightarrow> real \<Rightarrow> network \<Rightarrow> (string \<Rightarrow> fluid_state) \<Rightarrow> bool" where
  "converged pr eps nw st =
     (case residuals pr nw st of None \<Rightarrow> False | Some rs \<Rightarrow> list_all (\<lambda>r. \<bar>r\<bar> < eps) rs)"

text \<open>
  Modelled from the spec: the derived result of a component (section 4.2): the heat duty
  \<open>Q = m * (h_out - h_in)\<close> of the steam generator, the power \<open>P = m * (h_in - h_out)\<close> of
  the turbine, the power \<open>P = m * (h_out - h_in)\<close> of the pump and the heat duty
  \<open>Q = m1 * (h_in1 - h_out1)\<close> of the condenser, with the mass flow of the inlet.
\<close>

definition derived_result ::
  "network \<Rightarrow> (string \<Rightarrow> fluid_state) \<Rightarrow> component \<Rightarrow> real option" where
  "derived_result nw st c =
     (case (in_state nw st c ''in1'', out_state nw st c ''out1'') of
        (Some i, Some out) \<Rightarrow>
          (case kind c of
             SimpleHeatExchanger \<Rightarrow> Some (m_val i * (h_val out - h_val i))
           | Turbine \<Rightarrow> Some (m_val i * (h_val i - h_val out))
           | Pump \<Rightarrow> Some (m_val i * (h_val out - h_val i))
           | Condenser \<Rightarrow> Some (m_val i * (h_val i - h_val out))
           | _ \<Rightarrow> None)
      | _ \<Rightarrow> None)"

definition result_of :: "network \<Rightarrow> (string \<Rightarrow> fluid_state) \<Rightarrow> string \<Rightarrow> real option" where
  "result_of nw st l =
     (case get_comp nw l of None \<Rightarrow> None | Some c \<Rightarrow> derived_result nw st c)"

text \<open>
  Modelled from the spec: the mass imbalance that a CycleCloser reports (section 4.2):
  the mass flow of its outlet minus that of its inlet.
\<close>

definition mass_imbalance ::
  "network \<Rightarrow> (string \<Rightarrow> fluid_state) \<Rightarrow> component \<Rightarrow> real option" where
  "mass_imbalance nw st c =
     (case (kind c, in_state nw st c ''in1'', out_state nw st c ''out1'') of
        (CycleCloser, Some i, Some out) \<Rightarrow> Some (m_val out - m_val i)
      | _ \<Rightarrow> None)"

text \<open>
  Modelled from the spec: what the results accessor (sections 4.6 and 6) hands to the
  script for a state of the network: the state of each connection, and for each
  component its power (turbine, pump) or heat duty (steam generator, condenser). The
  spec's enthalpies are in kJ/kg, so a derived result is in kW; the script takes the
  values in W (it divides by \<open>1e3\<close> for kW and by \<open>1e6\<close> for MW, lines 96-98 and 157-160),
  so a value is held as 1000 times the derived result.
\<close>

definition state_results :: "network \<Rightarrow> (string \<Rightarrow> fluid_state) \<Rightarrow> results" where
  "state_results nw st =
     \<lparr>status = Converged,
      comp_P = (\<lambda>l. case get_comp nw l of
                       None \<Rightarrow> None
                     | Some c \<Rightarrow>
                         if kind c = Turbine \<or> kind c = Pump
                         then map_option (\<lambda>x. 1000 * x) (derived_result nw st c) else None),
      comp_Q = (\<lambda>l. case get_comp nw l of
                       None \<Rightarrow> None
                     | Some c \<Rightarrow>
                         if kind c = SimpleHeatExchanger \<or> kind c = Condenser
                         then map_option (\<lambda>x. 1000 * x) (derived_result nw st c) else None),
      conn_m = (\<lambda>l. map_option (\<lambda>c. m_val (st l)) (get_conn nw l)),
      conn_p = (\<lambda>l. map_option (\<lambda>c. p_val (st l)) (get_conn nw l)),
      conn_T = (\<lambda>l. map_option (\<lambda>c. T_val (st l)) (get_conn nw l)),
      conn_h = (\<lambda>l. map_option (\<lambda>c. h_val (st l)) (get_conn nw l))\<rparr>"

text \<open>
  The example configuration of src/rankine_model.py (lines 31-45), and two states of its
  network for the property provider \<open>example_props\<close>: temperature proportional to
  enthalpy, liquid (enthalpy below 1000) incompressible, vapour with enthalpy
  proportional to \<open>p + 100\<close> along an isentrope. In \<open>example_state\<close> every residual is
  zero. In \<open>example_iterate\<close> the residuals are below 1/1000 without being zero: the
  stream that enters the cycle closer (connection 0) differs from the one that leaves it
  (connection 1) in pressure, enthalpy and mass flow.
\<close>

definition example_network :: network where
  "example_network = network_setup 600 150 532 0.1 20 30 1.2 0.9 0.75"

definition example_props :: props where
  "example_props =
     \<lparr>T_ph = (\<lambda>p h. h / 4),
      s_ph = (\<lambda>p h. if h < 1000 then h - p / 10 else 1000 + 100 * h / (p + 100)),
      h_ps = (\<lambda>p s. if s < 1000 then s + p / 10 else (s - 1000) * (p + 100) / 100)\<rparr>"

definition example_state :: "string \<Rightarrow> fluid_state" where
  "example_state l =
     (if l = ''1'' \<or> l = ''0'' then \<lparr>m_val = 532, p_val = 150, T_val = 600, h_val = 2400\<rparr>
      else if l = ''2'' then
        \<lparr>m_val = 532, p_val = 1 / 10, T_val = 34527 / 125, h_val = 138108 / 125\<rparr>
      else if l = ''3'' then \<lparr>m_val = 532, p_val = 1 / 10, T_val = 45, h_val = 180\<rparr>
      else if l = ''4'' then
        \<lparr>m_val = 532, p_val = 500 / 3, T_val = 45497 / 900, h_val = 45497 / 225\<rparr>
      else if l = ''11'' then
        \<lparr>m_val = 7687932 / 625, p_val = 6 / 5, T_val = 20, h_val = 80\<rparr>
      else \<lparr>m_val = 7687932 / 625, p_val = 147 / 125, T_val = 30, h_val = 120\<rparr>)"

definition example_iterate :: "string \<Rightarrow> fluid_state" where
  "example_iterate l =
     (if l = ''0'' then
        \<lparr>m_val = 532 + 1 / 2000, p_val = 150 + 1 / 2000, T_val = 600 + 1 / 16000,
         h_val = 2400 + 1 / 4000\<rparr>
      else example_state l)"

text \<open>
  A solve that has returned without converging: the iteration limit was reached, and the
  objects hold the values of the last iterate.
\<close>

definition unconverged_results :: results where
  "unconverged_results =
     \<lparr>status = MaxIterationsExceeded,
      comp_P = (\<lambda>l. if l = ''steam turbine'' then Some (- 2000) else Some 1000),
      comp_Q = (\<lambda>l. Some 4000),
      conn_m = (\<lambda>l. Some 5), conn_p = (\<lambda>l. None), conn_T = (\<lambda>l. None),
      conn_h = (\<lambda>l. None)\<rparr>"

section \<open>The options of \<open>run_rankine\<close> reach the network\<close>

lemmas setup_defs = network_setup_def Network_def new_component_def Connection_def
  add_conns_def comp_set_attr_def conn_set_attr_def

lemma ledger_setup:
  "ledger (network_setup Ts ps ms pc Ti To pw et ep) =
     [(''steam generator'', ''pr'', 0.9),
      (''main condenser'', ''pr1'', 1), (''main condenser'', ''pr2'', 0.98),
      (''steam turbine'', ''eta_s'', et),
      (''feed pump'', ''eta_s'', ep),
      (''1'', ''T'', Ts), (''1'', ''p'', ps), (''1'', ''m'', ms),
      (''2'', ''p'', pc),
      (''11'', ''T'', Ti), (''11'', ''p'', pw),
      (''12'', ''T'', To)]"
  by (simp add: ledger_def setup_defs entries_def attr_names_def Let_def)

text \<open>
  C5. \<open>run_rankine\<close> takes nine real numbers: live steam temperature, pressure and mass
  flow, condenser pressure, cooling water inlet temperature, outlet temperature and
  pressure, turbine and pump isentropic efficiency. The network handed to \<open>solve\<close> fixes
  each of them, unchanged, as a boundary condition of a connection or as a parameter of
  a component; besides them it fixes only the three constant pressure ratios (and the
  fluid composition of connections 1 and 11). \<open>solve\<close> is called on that network, after
  all of them have been set.
\<close>

theorem run_rankine_applies_options:
  "ledger (network_setup Ts ps ms pc Ti To pw et ep) =
     [(''steam generator'', ''pr'', 0.9),
      (''main condenser'', ''pr1'', 1), (''main condenser'', ''pr2'', 0.98),
      (''steam turbine'', ''eta_s'', et),
      (''feed pump'', ''eta_s'', ep),
      (''1'', ''T'', Ts), (''1'', ''p'', ps), (''1'', ''m'', ms),
      (''2'', ''p'', pc),
      (''11'', ''T'', Ti), (''11'', ''p'', pw),
      (''12'', ''T'', To)] \<and>
   run_rankine solve Ts ps ms pc Ti To pw et ep =
     (case solve (network_setup Ts ps ms pc Ti To pw et ep) ''design'' of
        Inl e \<Rightarrow> Inl e
      | Inr r \<Rightarrow>
          Inr (r, [''0'', ''1'', ''2'', ''3'', ''4'', ''11'', ''12''],
               [''steam generator'', ''steam turbine'', ''feed pump'', ''main condenser'']))"
  using ledger_setup by (simp add: run_rankine_def)

section \<open>The sidebar's bounds\<close>

lemma widgets_bounds:
  assumes "widgets u"
  shows "1000 \<le> coal_cv u" and "1 / 2 \<le> boiler_eff u"
  using assms by (simp_all add: widgets_def slider_returns_def number_input_returns_def
      boiler_eff_def Let_def)

lemma widgets_default: "widgets default_ui"
  by (simp add: widgets_def slider_returns_def number_input_returns_def default_ui_def Let_def)

text \<open>
  C10. For every value the sidebar can deliver, the denominator \<open>coal_cv * boiler_eff\<close> of
  the coal flow is at least 500, so the division of line 101 never raises
  \<open>ZeroDivisionError\<close> and returns the quotient.
\<close>

theorem coal_flow_denominator_positive:
  assumes "widgets u"
  shows "500 \<le> coal_cv u * boiler_eff u \<and>
         py_div q (coal_cv u * boiler_eff u) = Inr (q / (coal_cv u * boiler_eff u))"
proof -
  have a: "1000 \<le> coal_cv u" and b: "1 / 2 \<le> boiler_eff u"
    using widgets_bounds [OF assms] by simp_all
  have "1000 * (1 / 2) \<le> coal_cv u * boiler_eff u"
    by (rule mult_mono [OF a b]) (use a in simp_all)
  then have c: "500 \<le> coal_cv u * boiler_eff u" by simp
  with a b show ?thesis by (simp add: py_div_def)
qed

text \<open>C10, witness: the sidebar at its defaults, where the denominator is 20400.\<close>

theorem coal_flow_denominator_positive_witness:
  "widgets default_ui \<and> 500 \<le> coal_cv default_ui * boiler_eff default_ui \<and>
   py_div 1 (coal_cv default_ui * boiler_eff default_ui) = Inr (1 / 20400)"
  using coal_flow_denominator_positive [OF widgets_default, of 1] widgets_default
  by (simp add: default_ui_def boiler_eff_def)

text \<open>
  While the inlet slider is at 29 or below, the default 30 of the outlet slider lies
  within its bounds and the outlet temperature is at least one degree above the inlet's.
\<close>

lemma cw_outlet_above_inlet_below_30:
  assumes "widgets u" and "T_cw_in u \<le> 29"
  shows "T_cw_in u + 1 \<le> T_cw_out u"
  using assms by (simp add: widgets_def slider_returns_def Let_def min_def max_def
      split: if_splits)

text \<open>
  C9, where the code departs from it. The outlet slider's default is the constant 30.0
  while its lower bound is the inlet temperature plus 1.0. With the inlet slider at 35
  and the outlet slider untouched, the outlet slider delivers its default 30, below the
  inlet temperature, and \<open>solve\<close> is called on a network whose cooling water enters at
  35 and leaves at 30.
\<close>

theorem cw_outlet_default_below_inlet:
  "widgets (default_ui\<lparr>T_cw_in := 35\<rparr>) \<and>
   \<not> T_cw_in (default_ui\<lparr>T_cw_in := 35\<rparr>) < T_cw_out (default_ui\<lparr>T_cw_in := 35\<rparr>) \<and>
   app (\<lambda>nw mode.
          Inl (LibraryError
                 (if conn_attr nw ''11'' ''T'' = Some 35 \<and> conn_attr nw ''12'' ''T'' = Some 30
                  then ''called with 35 in, 30 out'' else ''called otherwise'')))
       (default_ui\<lparr>T_cw_in := 35\<rparr>)
     = Stopped (LibraryError ''called with 35 in, 30 out'')"
  by (simp add: widgets_def slider_returns_def number_input_returns_def default_ui_def Let_def
      app_def run_rankine_def conn_attr_def get_conn_def setup_defs)

section \<open>Failures of the solve and the indicators\<close>

text \<open>
  C1, as the code has it. An exception raised while the network is built and solved is
  caught by the script: the failure is reported and the script stops, so no indicator is
  computed. When \<open>solve\<close> returns and the heat duty of the steam generator and the powers
  of the turbine and the pump are present, the heat duty not zero, the indicators are
  computed from them by the formulas of lines 96-102 and go on to be displayed, whatever
  the terminal state of the solver: nothing is asked of the status of \<open>r\<close>.
  (\<open>except Exception\<close> catches every exception of the library; the model has no other.)
\<close>

theorem app_failure_handling:
  assumes "widgets u"
  shows
  "(solve (network_setup (T_steam u) (p_steam u) (m_steam u) (p_cond u) (T_cw_in u)
       (T_cw_out u) (p_cw u) (eta_turbine u) (eta_pump u)) ''design'' = Inl e
     \<longrightarrow> app solve u = Stopped e) \<and>
   (solve (network_setup (T_steam u) (p_steam u) (m_steam u) (p_cond u) (T_cw_in u)
       (T_cw_out u) (p_cw u) (eta_turbine u) (eta_pump u)) ''design'' = Inr r \<and>
    comp_Q r ''steam generator'' = Some Q \<and> Q \<noteq> 0 \<and>
    comp_P r ''steam turbine'' = Some Pt \<and> comp_P r ''feed pump'' = Some Pp
     \<longrightarrow> app solve u =
          Rendered \<lparr>boiler_heat_duty = Q / 1000, turbine_power = \<bar>Pt / 1000\<bar>,
            pump_power = Pp / 1000, net_power_output = \<bar>Pt / 1000\<bar> - Pp / 1000,
            thermal_efficiency = (\<bar>Pt / 1000\<bar> - Pp / 1000) * 1000 / Q * 100,
            coal_flow = Q / 1000 / (coal_cv u * boiler_eff u),
            cw_flow = (case conn_m r ''11'' of Some v \<Rightarrow> v | None \<Rightarrow> 0)\<rparr>)"
proof -
  have a: "1000 \<le> coal_cv u" and b: "1 / 2 \<le> boiler_eff u"
    using widgets_bounds [OF assms] by simp_all
  then have "coal_cv u \<noteq> 0" and "boiler_eff u \<noteq> 0" by simp_all
  then show ?thesis
    by (simp add: app_def run_rankine_def compute_kpis_def bind_exn_def index_def
        val_div_def div_val_def py_div_def)
qed

text \<open>
  C1, witness: with the sidebar at its defaults, a solve that raises stops the script
  with that exception, and the solve that returned in \<open>MaxIterationsExceeded\<close> with the
  values 4000, -2000 and 1000 has its indicators computed from them.
\<close>

theorem app_failure_handling_witness:
  "widgets default_ui \<and>
   app (\<lambda>nw mode. Inl (LibraryError ''singular'')) default_ui =
     Stopped (LibraryError ''singular'') \<and>
   status unconverged_results = MaxIterationsExceeded \<and>
   app (\<lambda>nw mode. Inr unconverged_results) default_ui =
     Rendered \<lparr>boiler_heat_duty = 4000 / 1000, turbine_power = \<bar>- 2000 / 1000\<bar>,
       pump_power = 1000 / 1000, net_power_output = \<bar>- 2000 / 1000\<bar> - 1000 / 1000,
       thermal_efficiency = (\<bar>- 2000 / 1000\<bar> - 1000 / 1000) * 1000 / 4000 * 100,
       coal_flow = 4000 / 1000 / (coal_cv default_ui * boiler_eff default_ui),
       cw_flow = 5\<rparr>"
  using app_failure_handling [OF widgets_default,
      of "\<lambda>nw mode. Inl (LibraryError ''singular'')" "LibraryError ''singular''"]
    app_failure_handling [OF widgets_default,
      of "\<lambda>nw mode. Inr unconverged_results" _ unconverged_results 4000 "- 2000" 1000]
    widgets_default
  by (simp add: unconverged_results_def)

text \<open>
  C1, counterexample to the claim as stated: a solve that ends in
  \<open>MaxIterationsExceeded\<close> and returns has its values read, and the indicators derived
  from them are displayed.
\<close>

theorem unconverged_results_rendered:
  "status unconverged_results \<noteq> Converged \<and>
   app (\<lambda>nw mode. Inr unconverged_results) default_ui =
     Rendered \<lparr>boiler_heat_duty = 4, turbine_power = 2, pump_power = 1, net_power_output = 1,
       thermal_efficiency = 25, coal_flow = 1 / 5100, cw_flow = 5\<rparr>"
  by (simp add: unconverged_results_def app_def run_rankine_def compute_kpis_def bind_exn_def
      index_def val_div_def div_val_def py_div_def default_ui_def boiler_eff_def)

section \<open>Converged states of the component models\<close>

lemmas model_defs = component_residuals_def in_state_def out_state_def fixed_def
  connection_residuals_def spec_residual_def

lemma example_converged: "converged example_props (1 / 1000) example_network example_state"
  by (simp add: converged_def residuals_def example_network_def setup_defs Let_def
      model_defs example_props_def example_state_def)

lemma example_iterate_converged:
  "converged example_props (1 / 1000) example_network example_iterate"
  by (simp add: converged_def residuals_def example_network_def setup_defs Let_def
      model_defs example_props_def example_state_def example_iterate_def)

text \<open>
  What convergence says of the main loop of \<open>run_rankine\<close>'s network: the cycle closer's
  two equations between connections 0 and 1, and the mass balances of the steam generator
  (4 to 0), the turbine (1 to 2), the feed pump (3 to 4) and the condenser (2 to 3).
\<close>

lemma converged_setup:
  assumes "converged pr eps (network_setup Ts ps ms pc Ti To pw et ep) st"
  shows "\<bar>p_val (st ''1'') - p_val (st ''0'')\<bar> < eps"
    and "\<bar>h_val (st ''1'') - h_val (st ''0'')\<bar> < eps"
    and "\<bar>m_val (st ''0'') - m_val (st ''4'')\<bar> < eps"
    and "\<bar>m_val (st ''2'') - m_val (st ''1'')\<bar> < eps"
    and "\<bar>m_val (st ''4'') - m_val (st ''3'')\<bar> < eps"
    and "\<bar>m_val (st ''3'') - m_val (st ''2'')\<bar> < eps"
  using assms
  by (simp_all add: converged_def residuals_def setup_defs Let_def model_defs
      split: if_splits)

lemma setup_cycle_closer:
  "filter (\<lambda>c. kind c = CycleCloser) (comps (network_setup Ts ps ms pc Ti To pw et ep)) =
     [\<lparr>kind = CycleCloser, label = ''cycle closer'', params = Map.empty\<rparr>]"
  "in_state (network_setup Ts ps ms pc Ti To pw et ep) st
     \<lparr>kind = CycleCloser, label = ''cycle closer'', params = Map.empty\<rparr> ''in1'' = Some (st ''0'')"
  "out_state (network_setup Ts ps ms pc Ti To pw et ep) st
     \<lparr>kind = CycleCloser, label = ''cycle closer'', params = Map.empty\<rparr> ''out1'' = Some (st ''1'')"
  "mass_imbalance (network_setup Ts ps ms pc Ti To pw et ep) st
     \<lparr>kind = CycleCloser, label = ''cycle closer'', params = Map.empty\<rparr> =
     Some (m_val (st ''1'') - m_val (st ''0''))"
  by (simp_all add: setup_defs Let_def in_state_def out_state_def mass_imbalance_def)

text \<open>
  C8. The network of \<open>run_rankine\<close> has one CycleCloser; its inlet is connection 0 (from
  the steam generator) and its outlet connection 1 (to the turbine). In every converged
  state the pressure and the enthalpy of the outlet equal those of the inlet within the
  tolerance, by the cycle closer's own two equations, and the mass imbalance it reports
  is below four times the tolerance, by the mass balances of the four components around
  the loop.
\<close>

theorem cycle_closer_pass_through:
  assumes "converged pr eps (network_setup Ts ps ms pc Ti To pw et ep) st"
  shows "\<exists>c. filter (\<lambda>c. kind c = CycleCloser)
               (comps (network_setup Ts ps ms pc Ti To pw et ep)) = [c] \<and>
             in_state (network_setup Ts ps ms pc Ti To pw et ep) st c ''in1'' = Some (st ''0'') \<and>
             out_state (network_setup Ts ps ms pc Ti To pw et ep) st c ''out1'' = Some (st ''1'') \<and>
             mass_imbalance (network_setup Ts ps ms pc Ti To pw et ep) st c =
               Some (m_val (st ''1'') - m_val (st ''0'')) \<and>
             \<bar>p_val (st ''1'') - p_val (st ''0'')\<bar> < eps \<and>
             \<bar>h_val (st ''1'') - h_val (st ''0'')\<bar> < eps \<and>
             \<bar>m_val (st ''1'') - m_val (st ''0'')\<bar> < 4 * eps"
proof -
  note c = converged_setup [OF assms]
  have "\<bar>m_val (st ''1'') - m_val (st ''0'')\<bar> < 4 * eps"
    using c(3-6) by linarith
  with c(1,2) show ?thesis
    by (simp add: setup_cycle_closer)
qed

text \<open>
  C8, witness: the example network in the state \<open>example_iterate\<close>, converged to 1/1000,
  where the stream leaving the cycle closer differs from the one entering it by 1/2000
  in pressure, 1/4000 in enthalpy and 1/2000 in mass flow.
\<close>

theorem cycle_closer_pass_through_witness:
  "converged example_props (1 / 1000) example_network example_iterate \<and>
   (\<exists>c. filter (\<lambda>c. kind c = CycleCloser) (comps example_network) = [c] \<and>
        in_state example_network example_iterate c ''in1'' = Some (example_iterate ''0'') \<and>
        out_state example_network example_iterate c ''out1'' = Some (example_iterate ''1'') \<and>
        mass_imbalance example_network example_iterate c =
          Some (m_val (example_iterate ''1'') - m_val (example_iterate ''0'')) \<and>
        \<bar>p_val (example_iterate ''1'') - p_val (example_iterate ''0'')\<bar> < 1 / 1000 \<and>
        \<bar>h_val (example_iterate ''1'') - h_val (example_iterate ''0'')\<bar> < 1 / 1000 \<and>
        \<bar>m_val (example_iterate ''1'') - m_val (example_iterate ''0'')\<bar> < 4 * (1 / 1000)) \<and>
   p_val (example_iterate ''1'') - p_val (example_iterate ''0'') = - 1 / 2000 \<and>
   h_val (example_iterate ''1'') - h_val (example_iterate ''0'') = - 1 / 4000 \<and>
   m_val (example_iterate ''1'') - m_val (example_iterate ''0'') = - 1 / 2000"
proof -
  have "p_val (example_iterate ''1'') - p_val (example_iterate ''0'') = - 1 / 2000"
    and "h_val (example_iterate ''1'') - h_val (example_iterate ''0'') = - 1 / 4000"
    and "m_val (example_iterate ''1'') - m_val (example_iterate ''0'') = - 1 / 2000"
    by (simp_all add: example_iterate_def example_state_def)
  moreover note example_iterate_converged
  moreover note cycle_closer_pass_through
    [OF example_iterate_converged [unfolded example_network_def],
      folded example_network_def]
  ultimately show ?thesis by blast
qed

section \<open>The energy balance around the loop\<close>

lemma setup_results:
  "result_of (network_setup Ts ps ms pc Ti To pw et ep) st ''steam generator'' =
     Some (m_val (st ''4'') * (h_val (st ''0'') - h_val (st ''4'')))"
  "result_of (network_setup Ts ps ms pc Ti To pw et ep) st ''steam turbine'' =
     Some (m_val (st ''1'') * (h_val (st ''1'') - h_val (st ''2'')))"
  "result_of (network_setup Ts ps ms pc Ti To pw et ep) st ''feed pump'' =
     Some (m_val (st ''3'') * (h_val (st ''4'') - h_val (st ''3'')))"
  "result_of (network_setup Ts ps ms pc Ti To pw et ep) st ''main condenser'' =
     Some (m_val (st ''2'') * (h_val (st ''2'') - h_val (st ''3'')))"
  by (simp_all add: result_of_def get_comp_def derived_result_def setup_defs Let_def
      in_state_def out_state_def)

text \<open>The flows that lines 157-161 compute from the results of a state of the network.\<close>

lemma setup_energy_flows:
  "energy_flows (state_results (network_setup Ts ps ms pc Ti To pw et ep) st)
     [''steam generator'', ''steam turbine'', ''feed pump'', ''main condenser''] =
   Inr \<lparr>boiler_heat_mw = m_val (st ''4'') * (h_val (st ''0'') - h_val (st ''4'')) / 1000,
        turbine_power_mw = \<bar>m_val (st ''1'') * (h_val (st ''1'') - h_val (st ''2''))\<bar> / 1000,
        pump_power_mw = m_val (st ''3'') * (h_val (st ''4'') - h_val (st ''3'')) / 1000,
        condenser_heat_mw = \<bar>m_val (st ''2'') * (h_val (st ''2'') - h_val (st ''3''))\<bar> / 1000,
        net_power_mw =
          \<bar>m_val (st ''1'') * (h_val (st ''1'') - h_val (st ''2''))\<bar> / 1000 -
          m_val (st ''3'') * (h_val (st ''4'') - h_val (st ''3'')) / 1000\<rparr>"
  by (simp add: energy_flows_def state_results_def bind_exn_def index_def val_div_def
      py_div_def get_comp_def derived_result_def setup_defs Let_def in_state_def
      out_state_def abs_mult)

text \<open>
  The arithmetic of the balance: with the enthalpy handed on by the cycle closer and the
  mass flows handed on by turbine, condenser and pump, each within \<open>eps\<close>.
\<close>

lemma loop_imbalance_bound:
  fixes m1 m2 m3 m4 h0 h1 h2 h3 h4 eps :: real
  assumes a: "\<bar>h1 - h0\<bar> < eps" and d2: "\<bar>m2 - m1\<bar> < eps" and d3: "\<bar>m3 - m2\<bar> < eps"
    and d4: "\<bar>m4 - m3\<bar> < eps"
  shows "\<bar>m4 * (h0 - h4) + m3 * (h4 - h3) - (m1 * (h1 - h2) + m2 * (h2 - h3))\<bar>
         \<le> eps * (\<bar>m1\<bar> + 3 * \<bar>h0 - h4\<bar> + 2 * \<bar>h4 - h3\<bar> + \<bar>h2 - h3\<bar>)"
proof -
  have i: "m4 * (h0 - h4) + m3 * (h4 - h3) - (m1 * (h1 - h2) + m2 * (h2 - h3)) =
           m1 * (h0 - h1) + (m4 - m1) * (h0 - h4) + (m3 - m1) * (h4 - h3) - (m2 - m1) * (h2 - h3)"
    by (simp add: algebra_simps)
  have "\<bar>h0 - h1\<bar> \<le> eps" using a by linarith
  then have "\<bar>m1\<bar> * \<bar>h0 - h1\<bar> \<le> \<bar>m1\<bar> * eps"
    by (rule mult_left_mono) simp
  then have t1: "\<bar>m1 * (h0 - h1)\<bar> \<le> eps * \<bar>m1\<bar>"
    by (simp add: abs_mult mult.commute)
  have "\<bar>m4 - m1\<bar> \<le> 3 * eps" using d2 d3 d4 by linarith
  then have t2: "\<bar>(m4 - m1) * (h0 - h4)\<bar> \<le> 3 * eps * \<bar>h0 - h4\<bar>"
    by (simp add: abs_mult mult_right_mono)
  have "\<bar>m3 - m1\<bar> \<le> 2 * eps" using d2 d3 by linarith
  then have t3: "\<bar>(m3 - m1) * (h4 - h3)\<bar> \<le> 2 * eps * \<bar>h4 - h3\<bar>"
    by (simp add: abs_mult mult_right_mono)
  have "\<bar>m2 - m1\<bar> \<le> eps" using d2 by linarith
  then have t4: "\<bar>(m2 - m1) * (h2 - h3)\<bar> \<le> eps * \<bar>h2 - h3\<bar>"
    by (simp add: abs_mult mult_right_mono)
  have "\<bar>m1 * (h0 - h1) + (m4 - m1) * (h0 - h4) + (m3 - m1) * (h4 - h3) - (m2 - m1) * (h2 - h3)\<bar>
        \<le> \<bar>m1 * (h0 - h1)\<bar> + \<bar>(m4 - m1) * (h0 - h4)\<bar> + \<bar>(m3 - m1) * (h4 - h3)\<bar>
          + \<bar>(m2 - m1) * (h2 - h3)\<bar>"
    by linarith
  also have "\<dots> \<le> eps * \<bar>m1\<bar> + 3 * eps * \<bar>h0 - h4\<bar> + 2 * eps * \<bar>h4 - h3\<bar> + eps * \<bar>h2 - h3\<bar>"
    using t1 t2 t3 t4 by linarith
  also have "\<dots> = eps * (\<bar>m1\<bar> + 3 * \<bar>h0 - h4\<bar> + 2 * \<bar>h4 - h3\<bar> + \<bar>h2 - h3\<bar>)"
    by (simp add: algebra_simps)
  finally show ?thesis using i by simp
qed

text \<open>
  C2, as amended. In every converged state of the network of \<open>run_rankine\<close>, the heat duty
  of the steam generator plus the power of the feed pump equals the power of the turbine
  plus the heat duty of the condenser, within the tolerance times the size of the state
  (the mass flow and the enthalpy rises around the loop); and the flows that lines
  157-161 of the script compute from the results are these four values over 1000, the
  turbine's and the condenser's in absolute value. The balance of the claim leaves the
  pump's power out.
\<close>

theorem energy_balance_with_pump:
  assumes "converged pr eps (network_setup Ts ps ms pc Ti To pw et ep) st"
  shows "\<exists>Q_sg P_tu P_fp Q_mc.
           result_of (network_setup Ts ps ms pc Ti To pw et ep) st ''steam generator'' = Some Q_sg \<and>
           result_of (network_setup Ts ps ms pc Ti To pw et ep) st ''steam turbine'' = Some P_tu \<and>
           result_of (network_setup Ts ps ms pc Ti To pw et ep) st ''feed pump'' = Some P_fp \<and>
           result_of (network_setup Ts ps ms pc Ti To pw et ep) st ''main condenser'' = Some Q_mc \<and>
           energy_flows (state_results (network_setup Ts ps ms pc Ti To pw et ep) st)
             [''steam generator'', ''steam turbine'', ''feed pump'', ''main condenser''] =
             Inr \<lparr>boiler_heat_mw = Q_sg / 1000, turbine_power_mw = \<bar>P_tu\<bar> / 1000,
                  pump_power_mw = P_fp / 1000, condenser_heat_mw = \<bar>Q_mc\<bar> / 1000,
                  net_power_mw = \<bar>P_tu\<bar> / 1000 - P_fp / 1000\<rparr> \<and>
           \<bar>Q_sg + P_fp - (P_tu + Q_mc)\<bar> \<le>
             eps * (\<bar>m_val (st ''1'')\<bar> + 3 * \<bar>h_val (st ''0'') - h_val (st ''4'')\<bar> +
                    2 * \<bar>h_val (st ''4'') - h_val (st ''3'')\<bar> +
                    \<bar>h_val (st ''2'') - h_val (st ''3'')\<bar>)"
proof -
  note c = converged_setup [OF assms]
  have "\<bar>m_val (st ''4'') * (h_val (st ''0'') - h_val (st ''4'')) +
         m_val (st ''3'') * (h_val (st ''4'') - h_val (st ''3'')) -
         (m_val (st ''1'') * (h_val (st ''1'') - h_val (st ''2'')) +
          m_val (st ''2'') * (h_val (st ''2'') - h_val (st ''3'')))\<bar>
        \<le> eps * (\<bar>m_val (st ''1'')\<bar> + 3 * \<bar>h_val (st ''0'') - h_val (st ''4'')\<bar> +
                 2 * \<bar>h_val (st ''4'') - h_val (st ''3'')\<bar> +
                 \<bar>h_val (st ''2'') - h_val (st ''3'')\<bar>)"
    by (rule loop_imbalance_bound [OF c(2) c(4) c(6) c(5)])
  then show ?thesis
    by (simp add: setup_results setup_energy_flows)
qed

text \<open>
  C2, witness: the example network in the state \<open>example_iterate\<close>, converged to 1/1000
  without any residual of the cycle closer being zero.
\<close>

theorem energy_balance_with_pump_witness:
  "converged example_props (1 / 1000) example_network example_iterate \<and>
   (\<exists>Q_sg P_tu P_fp Q_mc.
      result_of example_network example_iterate ''steam generator'' = Some Q_sg \<and>
      result_of example_network example_iterate ''steam turbine'' = Some P_tu \<and>
      result_of example_network example_iterate ''feed pump'' = Some P_fp \<and>
      result_of example_network example_iterate ''main condenser'' = Some Q_mc \<and>
      energy_flows (state_results example_network example_iterate)
        [''steam generator'', ''steam turbine'', ''feed pump'', ''main condenser''] =
        Inr \<lparr>boiler_heat_mw = Q_sg / 1000, turbine_power_mw = \<bar>P_tu\<bar> / 1000,
             pump_power_mw = P_fp / 1000, condenser_heat_mw = \<bar>Q_mc\<bar> / 1000,
             net_power_mw = \<bar>P_tu\<bar> / 1000 - P_fp / 1000\<rparr> \<and>
      \<bar>Q_sg + P_fp - (P_tu + Q_mc)\<bar> \<le>
        1 / 1000 *
          (\<bar>m_val (example_iterate ''1'')\<bar> +
           3 * \<bar>h_val (example_iterate ''0'') - h_val (example_iterate ''4'')\<bar> +
           2 * \<bar>h_val (example_iterate ''4'') - h_val (example_iterate ''3'')\<bar> +
           \<bar>h_val (example_iterate ''2'') - h_val (example_iterate ''3'')\<bar>))"
  using energy_balance_with_pump
      [OF example_iterate_converged [unfolded example_network_def],
        folded example_network_def]
    example_iterate_converged
  by blast

text \<open>
  C2, counterexample to the claim as stated: in the converged example state, where every
  residual is zero, the script's boiler heat (about 1169.2 MW) differs from the sum of
  its turbine power (about 689.0 MW) and condenser heat (about 492.0 MW) by 2658404/225000
  (about 11.8 MW), which is the pump power; the tolerance times the size of the state is
  below 0.01 MW there.
\<close>

theorem energy_balance_without_pump_fails:
  "converged example_props (1 / 1000) example_network example_state \<and>
   energy_flows (state_results example_network example_state)
     [''steam generator'', ''steam turbine'', ''feed pump'', ''main condenser''] =
     Inr \<lparr>boiler_heat_mw = 263075596 / 225000, turbine_power_mw = 86126544 / 125000,
          pump_power_mw = 2658404 / 225000, condenser_heat_mw = 61503456 / 125000,
          net_power_mw = 86126544 / 125000 - 2658404 / 225000\<rparr> \<and>
   \<bar>263075596 / 225000 - (86126544 / 125000 + 61503456 / 125000)\<bar> = (2658404 / 225000 :: real) \<and>
   1 / 1000 *
     (\<bar>m_val (example_state ''1'')\<bar> +
      3 * \<bar>h_val (example_state ''0'') - h_val (example_state ''4'')\<bar> +
      2 * \<bar>h_val (example_state ''4'') - h_val (example_state ''3'')\<bar> +
      \<bar>h_val (example_state ''2'') - h_val (example_state ''3'')\<bar>) / 1000 \<le> 1 / 100 \<and>
   \<not> \<bar>263075596 / 225000 - (86126544 / 125000 + 61503456 / 125000)\<bar> \<le> (1 / 100 :: real)"
  using example_converged
  by (simp add: example_network_def setup_energy_flows example_state_def)

end
